theory Spec2Isabelle
  imports Main
begin

section \<open>Vision2Lang: the glue code around the captioning and question-answering models\<close>

text \<open>
  The repository is a thin pipeline (\<^verbatim>\<open>src/inference.py\<close>, \<^verbatim>\<open>src/utils.py\<close>,
  \<^verbatim>\<open>src/app.py\<close>) around libraries it does not implement. The embedding keeps the
  control flow of each function and makes its effects explicit: the module globals and the
  camera are fields of a \<open>world\<close> record that every function takes and returns, each call
  into a library appends an event to the world's trace, and the answer of a library (a value
  or a raised exception) is read from an \<open>env\<close> record.
\<close>

subsection \<open>Python strings\<close>

text \<open>
  A Python \<^verbatim>\<open>str\<close> is a sequence of Unicode code points; \<open>lit\<close> embeds an ASCII literal.
\<close>

type_synonym py_str = "nat list"

definition lit :: "string \<Rightarrow> py_str" where
  "lit s = map of_char s"

text \<open>
  \<^verbatim>\<open>str.isspace\<close> on one code point: the code points that \<^verbatim>\<open>str.strip()\<close>, called without
  an argument, removes.
\<close>

definition py_isspace :: "nat \<Rightarrow> bool" where
  "py_isspace c \<longleftrightarrow>
     (9 \<le> c \<and> c \<le> 13) \<or> (28 \<le> c \<and> c \<le> 32) \<or> c = 133 \<or> c = 160 \<or> c = 5760 \<or>
     (8192 \<le> c \<and> c \<le> 8202) \<or> c = 8232 \<or> c = 8233 \<or> c = 8239 \<or> c = 8287 \<or> c = 12288"

definition py_strip :: "py_str \<Rightarrow> py_str" where
  "py_strip s = rev (dropWhile py_isspace (rev (dropWhile py_isspace s)))"

text \<open>The test \<^verbatim>\<open>not text or text.strip() == ""\<close> of the source, on a string.\<close>

definition blank :: "py_str \<Rightarrow> bool" where
  "blank s \<longleftrightarrow> s = [] \<or> py_strip s = []"

subsection \<open>Exceptions\<close>

text \<open>
  \<open>ValueError\<close> is the one exception the repository raises itself; \<open>IndexError\<close> is what
  \<^verbatim>\<open>outputs[0]\<close> raises on an empty batch; \<open>OtherError cls msg\<close> is any other subclass
  of \<^verbatim>\<open>Exception\<close> coming out of a library. \<open>exn_str\<close> is \<^verbatim>\<open>str(e)\<close>.
\<close>

datatype py_exn = ValueError py_str | IndexError py_str | OtherError py_str py_str

fun exn_str :: "py_exn \<Rightarrow> py_str" where
  "exn_str (ValueError m) = m"
| "exn_str (IndexError m) = m"
| "exn_str (OtherError c m) = m"

subsection \<open>Images and the values handed in as an image\<close>

datatype pil_mode = ModeL | ModeLA | ModeRGB | ModeRGBA | ModeOther py_str


text \<open>A decoded image: its mode and its size in pixels. The pixel values are left out.\<close>

record image =
  img_mode :: pil_mode
  img_width :: nat
  img_height :: nat

text \<open>A numpy array, by its shape (rows first).\<close>

record ndarray =
  nd_shape :: "nat list"

text \<open>
  What a caller can pass as \<^verbatim>\<open>image\<close>: \<^verbatim>\<open>None\<close>, a string, an array, a decoded image, or
  an object of any other type, given by the name of its type.
\<close>

datatype py_value =
    PyNone
  | PyStr py_str
  | NdArray ndarray
  | PilImage image
  | PyObject py_str

fun type_name :: "py_value \<Rightarrow> py_str" where
  "type_name PyNone = lit ''NoneType''"
| "type_name (PyStr s) = lit ''str''"
| "type_name (NdArray a) = lit ''numpy.ndarray''"
| "type_name (PilImage i) = lit ''PIL.Image.Image''"
| "type_name (PyObject t) = t"

text \<open>\<^verbatim>\<open>f"{type(image)}"\<close>: the name between \<^verbatim>\<open><class '\<close> and \<^verbatim>\<open>'>\<close> (39 is the apostrophe).\<close>

definition type_repr :: "py_value \<Rightarrow> py_str" where
  "type_repr v = lit ''<class '' @ [39] @ type_name v @ [39] @ lit ''>''"

text \<open>The three \<^verbatim>\<open>isinstance\<close> tests of \<^verbatim>\<open>prepare_image\<close>.\<close>

fun supported_image :: "py_value \<Rightarrow> bool" where
  "supported_image (PyStr s) = True"
| "supported_image (NdArray a) = True"
| "supported_image (PilImage i) = True"
| "supported_image v = False"

text \<open>
  \<^verbatim>\<open>Image.convert(mode)\<close> returns a copy in the given mode, of the same size.
\<close>

definition convert :: "pil_mode \<Rightarrow> image \<Rightarrow> image" where
  "convert m i = i\<lparr>img_mode := m\<rparr>"

text \<open>
  \<^verbatim>\<open>Image.fromarray\<close> on an array of bytes: a matrix is a greyscale image, a third axis of
  2, 3 or 4 gives the mode, and any other shape is refused. The width is the second axis,
  the height the first.
\<close>

definition fromarray :: "ndarray \<Rightarrow> py_exn + image" where
  "fromarray a =
     (case nd_shape a of
        [h, w] \<Rightarrow> Inr \<lparr>img_mode = ModeL, img_width = w, img_height = h\<rparr>
      | [h, w, c] \<Rightarrow>
          (if c = 2 then Inr \<lparr>img_mode = ModeLA, img_width = w, img_height = h\<rparr>
           else if c = 3 then Inr \<lparr>img_mode = ModeRGB, img_width = w, img_height = h\<rparr>
           else if c = 4 then Inr \<lparr>img_mode = ModeRGBA, img_width = w, img_height = h\<rparr>
           else Inl (OtherError (lit ''TypeError'') (lit ''Cannot handle this data type'')))
      | _ \<Rightarrow> Inl (OtherError (lit ''TypeError'') (lit ''Cannot handle this data type'')))"

subsection \<open>Model handles, the libraries and the process state\<close>

text \<open>
  Objects built by the model library carry the number they were allocated under, so that
  two constructions of the same checkpoint are different objects.
\<close>

record processor =
  pr_id :: nat
  pr_checkpoint :: py_str

record model_handle =
  mh_id :: nat
  mh_checkpoint :: py_str
  mh_device :: py_str

text \<open>The result of \<^verbatim>\<open>processor(images=..., text=..., return_tensors="pt").to(dev)\<close>.\<close>

record model_inputs =
  in_image :: image
  in_text :: "py_str option"
  in_device :: "py_str option"

text \<open>One event per \<^verbatim>\<open>print\<close> and per call into a library, in the order of execution.\<close>

datatype event =
    Print py_str
  | GetDevice
  | ProcessorFromPretrained py_str
  | ModelFromPretrained py_str
  | ImageOpen py_str
  | ProcessorCall nat
  | ModelGenerate nat int
  | ProcessorDecode nat bool
  | NamedTemporaryFile
  | GttsNew py_str py_str bool
  | GttsSave py_str
  | VideoCapture
  | CapRead
  | CapRelease
  | CvtColor

text \<open>
  What the libraries answer during one call of a public function. A field of type
  \<open>py_exn option\<close> is \<open>Some x\<close> when the call raises \<open>x\<close>; a sum is \<open>Inl x\<close> then.
  \<open>video_capture\<close> is \<^verbatim>\<open>cv2.VideoCapture(0)\<close>: the handle it returns has the device open
  or not. \<open>cap_read\<close> is \<^verbatim>\<open>cap.read()\<close>: \<open>Some frame\<close> for \<^verbatim>\<open>(True, frame)\<close> and \<open>None\<close>
  for \<^verbatim>\<open>(False, None)\<close>.
\<close>

record env =
  cuda_is_available :: bool
  mps_is_available :: bool
  processor_from_pretrained :: "py_str \<Rightarrow> py_exn option"
  model_from_pretrained :: "py_str \<Rightarrow> py_str \<Rightarrow> py_exn option"
  image_open :: "py_str \<Rightarrow> py_exn + image"
  processor_call :: "image \<Rightarrow> py_str option \<Rightarrow> py_exn option"
  model_generate :: "model_handle \<Rightarrow> model_inputs \<Rightarrow> int \<Rightarrow> py_exn + nat list list"
  processor_decode :: "nat list \<Rightarrow> bool \<Rightarrow> py_str"
  named_temporary_file :: "py_exn + py_str"
  gtts_new :: "py_str \<Rightarrow> py_str \<Rightarrow> bool \<Rightarrow> py_exn option"
  gtts_save :: "py_str \<Rightarrow> py_str \<Rightarrow> py_exn option"
  video_capture :: "py_exn + bool"
  cap_read :: "py_exn + ndarray option"
  cvt_color :: "ndarray \<Rightarrow> py_exn + ndarray"

text \<open>
  The globals of \<^verbatim>\<open>inference.py\<close>, the allocation counter, the number of camera handles
  that hold the device, and the trace.
\<close>

record world =
  caption_model :: "model_handle option"
  caption_processor :: "processor option"
  vqa_model :: "model_handle option"
  vqa_processor :: "processor option"
  device :: "py_str option"
  next_obj :: nat
  cam_open_handles :: nat
  trace :: "event list"

definition initial_world :: world where
  "initial_world =
     \<lparr>caption_model = None, caption_processor = None, vqa_model = None,
      vqa_processor = None, device = None, next_obj = 0, cam_open_handles = 0, trace = []\<rparr>"

definition emit :: "event \<Rightarrow> world \<Rightarrow> world" where
  "emit ev w = w\<lparr>trace := trace w @ [ev]\<rparr>"

text \<open>The events added between two states of one run.\<close>

definition events_since :: "world \<Rightarrow> world \<Rightarrow> event list" where
  "events_since w w' = drop (length (trace w)) (trace w')"

subsection \<open>\<^verbatim>\<open>inference.py\<close>\<close>

definition get_device :: "env \<Rightarrow> py_str" where
  "get_device e =
     (if cuda_is_available e then lit ''cuda''
      else if mps_is_available e then lit ''mps''
      else lit ''cpu'')"

definition caption_checkpoint :: py_str where
  "caption_checkpoint = lit ''Salesforce/blip-image-captioning-base''"

definition vqa_checkpoint :: py_str where
  "vqa_checkpoint = lit ''Salesforce/blip-vqa-base''"

definition caption_loading_line :: py_str where
  "caption_loading_line = lit ''Loading BLIP captioning model...''"

definition caption_loaded_line :: py_str where
  "caption_loaded_line = [9989] @ lit '' Captioning model loaded successfully!''"

definition vqa_loading_line :: py_str where
  "vqa_loading_line = lit ''Loading BLIP VQA model...''"

definition vqa_loaded_line :: py_str where
  "vqa_loaded_line = [9989] @ lit '' VQA model loaded successfully!''"

text \<open>
  The loaders return the three globals as they are after the \<^verbatim>\<open>if\<close>. An exception out
  of \<^verbatim>\<open>from_pretrained\<close> or \<^verbatim>\<open>.to(device)\<close> leaves the assignments made before it.
\<close>

definition load_caption_model ::
  "env \<Rightarrow> world \<Rightarrow> (py_exn + model_handle \<times> processor option \<times> py_str option) \<times> world" where
  "load_caption_model e w =
     (case caption_model w of
        Some m \<Rightarrow> (Inr (m, caption_processor w, device w), w)
      | None \<Rightarrow>
          (let w1 = emit (Print caption_loading_line) w;
               d = get_device e;
               w2 = (emit GetDevice w1)\<lparr>device := Some d\<rparr>;
               w3 = emit (Print (lit ''Using device: '' @ d)) w2;
               w4 = emit (ProcessorFromPretrained caption_checkpoint) w3
           in case processor_from_pretrained e caption_checkpoint of
                Some x \<Rightarrow> (Inl x, w4)
              | None \<Rightarrow>
                  (let p = \<lparr>pr_id = next_obj w4, pr_checkpoint = caption_checkpoint\<rparr>;
                       w5 = w4\<lparr>caption_processor := Some p, next_obj := Suc (next_obj w4)\<rparr>;
                       w6 = emit (ModelFromPretrained caption_checkpoint) w5
                   in case model_from_pretrained e caption_checkpoint d of
                        Some x \<Rightarrow> (Inl x, w6)
                      | None \<Rightarrow>
                          (let m = \<lparr>mh_id = next_obj w6, mh_checkpoint = caption_checkpoint,
                                    mh_device = d\<rparr>;
                               w7 = w6\<lparr>caption_model := Some m, next_obj := Suc (next_obj w6)\<rparr>;
                               w8 = emit (Print caption_loaded_line) w7
                           in (Inr (m, caption_processor w8, device w8), w8)))))"

definition load_vqa_model ::
  "env \<Rightarrow> world \<Rightarrow> (py_exn + model_handle \<times> processor option \<times> py_str option) \<times> world" where
  "load_vqa_model e w =
     (case vqa_model w of
        Some m \<Rightarrow> (Inr (m, vqa_processor w, device w), w)
      | None \<Rightarrow>
          (let w1 = emit (Print vqa_loading_line) w;
               d = get_device e;
               w2 = (emit GetDevice w1)\<lparr>device := Some d\<rparr>;
               w3 = emit (Print (lit ''Using device: '' @ d)) w2;
               w4 = emit (ProcessorFromPretrained vqa_checkpoint) w3
           in case processor_from_pretrained e vqa_checkpoint of
                Some x \<Rightarrow> (Inl x, w4)
              | None \<Rightarrow>
                  (let p = \<lparr>pr_id = next_obj w4, pr_checkpoint = vqa_checkpoint\<rparr>;
                       w5 = w4\<lparr>vqa_processor := Some p, next_obj := Suc (next_obj w4)\<rparr>;
                       w6 = emit (ModelFromPretrained vqa_checkpoint) w5
                   in case model_from_pretrained e vqa_checkpoint d of
                        Some x \<Rightarrow> (Inl x, w6)
                      | None \<Rightarrow>
                          (let m = \<lparr>mh_id = next_obj w6, mh_checkpoint = vqa_checkpoint,
                                    mh_device = d\<rparr>;
                               w7 = w6\<lparr>vqa_model := Some m, next_obj := Suc (next_obj w6)\<rparr>;
                               w8 = emit (Print vqa_loaded_line) w7
                           in (Inr (m, vqa_processor w8, device w8), w8)))))"

definition unsupported_image_message :: "py_value \<Rightarrow> py_str" where
  "unsupported_image_message v = lit ''Unsupported image type: '' @ type_repr v"

fun prepare_image :: "env \<Rightarrow> world \<Rightarrow> py_value \<Rightarrow> (py_exn + image) \<times> world" where
  "prepare_image e w (PyStr path) =
     (case image_open e path of
        Inl x \<Rightarrow> (Inl x, emit (ImageOpen path) w)
      | Inr i \<Rightarrow> (Inr (convert ModeRGB i), emit (ImageOpen path) w))"
| "prepare_image e w (NdArray a) =
     (case fromarray a of
        Inl x \<Rightarrow> (Inl x, w)
      | Inr i \<Rightarrow> (Inr (convert ModeRGB i), w))"
| "prepare_image e w (PilImage i) = (Inr (convert ModeRGB i), w)"
| "prepare_image e w v = (Inl (ValueError (unsupported_image_message v)), w)"

text \<open>
  The last four statements of \<^verbatim>\<open>caption_image\<close> and of \<^verbatim>\<open>answer_question\<close>, which differ
  only in the \<^verbatim>\<open>text=question\<close> argument: encode, generate under \<^verbatim>\<open>max_length\<close>, decode
  \<^verbatim>\<open>outputs[0]\<close> with \<^verbatim>\<open>skip_special_tokens=True\<close>. Calling a processor that is
  \<^verbatim>\<open>None\<close> raises a \<^verbatim>\<open>TypeError\<close>.
\<close>

definition generate_text ::
  "env \<Rightarrow> world \<Rightarrow> model_handle \<Rightarrow> processor option \<Rightarrow> py_str option \<Rightarrow> image \<Rightarrow>
   py_str option \<Rightarrow> int \<Rightarrow> (py_exn + py_str) \<times> world" where
  "generate_text e w model proc dev pil_image question max_length =
     (case proc of
        None \<Rightarrow> (Inl (OtherError (lit ''TypeError'') (lit ''NoneType object is not callable'')), w)
      | Some p \<Rightarrow>
          (let w1 = emit (ProcessorCall (pr_id p)) w
           in case processor_call e pil_image question of
                Some x \<Rightarrow> (Inl x, w1)
              | None \<Rightarrow>
                  (let inputs = \<lparr>in_image = pil_image, in_text = question, in_device = dev\<rparr>;
                       w2 = emit (ModelGenerate (mh_id model) max_length) w1
                   in case model_generate e model inputs max_length of
                        Inl x \<Rightarrow> (Inl x, w2)
                      | Inr outputs \<Rightarrow>
                          (case outputs of
                             [] \<Rightarrow> (Inl (IndexError (lit ''index 0 is out of bounds'')), w2)
                           | out0 # rest \<Rightarrow>
                               (Inr (processor_decode e out0 True),
                                emit (ProcessorDecode (pr_id p) True) w2)))))"

definition caption_image :: "env \<Rightarrow> world \<Rightarrow> py_value \<Rightarrow> int \<Rightarrow> (py_exn + py_str) \<times> world" where
  "caption_image e w img max_length =
     (case load_caption_model e w of
        (Inl x, w1) \<Rightarrow> (Inl x, w1)
      | (Inr (model, proc, dev), w1) \<Rightarrow>
          (case prepare_image e w1 img of
             (Inl x, w2) \<Rightarrow> (Inl x, w2)
           | (Inr pil_image, w2) \<Rightarrow>
               generate_text e w2 model proc dev pil_image None max_length))"

text \<open>The default of the \<^verbatim>\<open>max_length\<close> parameter of both functions.\<close>

definition default_max_length :: int where
  "default_max_length = 50"

definition question_sentinel :: py_str where
  "question_sentinel = lit ''Please ask a question about the image.''"

definition answer_question ::
  "env \<Rightarrow> world \<Rightarrow> py_value \<Rightarrow> py_str \<Rightarrow> int \<Rightarrow> (py_exn + py_str) \<times> world" where
  "answer_question e w img question max_length =
     (if blank question then (Inr question_sentinel, w)
      else
        (case load_vqa_model e w of
           (Inl x, w1) \<Rightarrow> (Inl x, w1)
         | (Inr (model, proc, dev), w1) \<Rightarrow>
             (case prepare_image e w1 img of
                (Inl x, w2) \<Rightarrow> (Inl x, w2)
              | (Inr pil_image, w2) \<Rightarrow>
                  generate_text e w2 model proc dev pil_image (Some question) max_length)))"

subsection \<open>\<^verbatim>\<open>utils.py\<close>\<close>

definition speech_error_line :: "py_exn \<Rightarrow> py_str" where
  "speech_error_line x = [10060] @ lit '' Error generating speech: '' @ exn_str x"

text \<open>
  The whole body is inside \<^verbatim>\<open>try\<close>, and \<^verbatim>\<open>except Exception\<close> prints and returns
  \<^verbatim>\<open>None\<close>: the result is an option and no exception leaves the function.
\<close>

definition text_to_speech ::
  "env \<Rightarrow> world \<Rightarrow> py_str \<Rightarrow> py_str \<Rightarrow> bool \<Rightarrow> py_str option \<times> world" where
  "text_to_speech e w text lang slow =
     (if blank text then (None, w)
      else
        (let w1 = emit NamedTemporaryFile w
         in case named_temporary_file e of
              Inl x \<Rightarrow> (None, emit (Print (speech_error_line x)) w1)
            | Inr audio_path \<Rightarrow>
                (let w2 = emit (GttsNew text lang slow) w1
                 in case gtts_new e text lang slow of
                      Some x \<Rightarrow> (None, emit (Print (speech_error_line x)) w2)
                    | None \<Rightarrow>
                        (let w3 = emit (GttsSave audio_path) w2
                         in case gtts_save e text audio_path of
                              Some x \<Rightarrow> (None, emit (Print (speech_error_line x)) w3)
                            | None \<Rightarrow>
                                (Some audio_path,
                                 emit (Print ([128266] @ lit '' Audio generated: '' @ audio_path))
                                   w3)))))"

definition capture_error_line :: "py_exn \<Rightarrow> py_str" where
  "capture_error_line x = [10060] @ lit '' Error capturing webcam frame: '' @ exn_str x"

text \<open>
  \<^verbatim>\<open>cap.isOpened()\<close> reads the flag of the handle that \<^verbatim>\<open>cv2.VideoCapture(0)\<close> returned.
  A handle that opened the device holds it until \<^verbatim>\<open>cap.release()\<close> is called, which is
  the statement after \<^verbatim>\<open>cap.read()\<close>.
\<close>

definition capture_webcam_frame :: "env \<Rightarrow> world \<Rightarrow> ndarray option \<times> world" where
  "capture_webcam_frame e w =
     (let w1 = emit VideoCapture w
      in case video_capture e of
           Inl x \<Rightarrow> (None, emit (Print (capture_error_line x)) w1)
         | Inr opened \<Rightarrow>
             (if \<not> opened then (None, emit (Print ([10060] @ lit '' Cannot open webcam'')) w1)
              else
                (let w2 = w1\<lparr>cam_open_handles := Suc (cam_open_handles w1)\<rparr>;
                     w3 = emit CapRead w2
                 in case cap_read e of
                      Inl x \<Rightarrow> (None, emit (Print (capture_error_line x)) w3)
                    | Inr r \<Rightarrow>
                        (let w4 = (emit CapRelease w3)\<lparr>cam_open_handles := cam_open_handles w3 - 1\<rparr>
                         in case r of
                              None \<Rightarrow>
                                (None, emit (Print ([10060] @ lit '' Failed to capture frame'')) w4)
                            | Some frame \<Rightarrow>
                                (let w5 = emit CvtColor w4
                                 in case cvt_color e frame of
                                      Inl x \<Rightarrow> (None, emit (Print (capture_error_line x)) w5)
                                    | Inr frame_rgb \<Rightarrow> (Some frame_rgb, w5))))))"

subsection \<open>\<^verbatim>\<open>app.py\<close>\<close>

definition error_message :: "py_exn \<Rightarrow> py_str" where
  "error_message x = [10060] @ lit '' Error: '' @ exn_str x"

definition upload_first_message :: py_str where
  "upload_first_message = lit ''Please upload an image first.''"

definition enter_question_message :: py_str where
  "enter_question_message = lit ''Please enter a question.''"

definition capture_failed_message :: py_str where
  "capture_failed_message =
     lit ''Failed to capture webcam frame. Make sure your webcam is connected.''"

text \<open>
  The actions call \<^verbatim>\<open>caption_image\<close>, \<^verbatim>\<open>answer_question\<close> and \<^verbatim>\<open>text_to_speech\<close> with
  their default arguments. The result is the tuple handed to the user interface.
\<close>

definition generate_caption_with_audio ::
  "env \<Rightarrow> world \<Rightarrow> py_value \<Rightarrow> bool \<Rightarrow> (py_str \<times> py_str option) \<times> world" where
  "generate_caption_with_audio e w img enable_tts =
     (if img = PyNone then ((upload_first_message, None), w)
      else
        (let w1 = emit (Print ([128444, 65039] @ lit '' Generating caption...'')) w
         in case caption_image e w1 img default_max_length of
              (Inl x, w2) \<Rightarrow> ((error_message x, None), emit (Print (error_message x)) w2)
            | (Inr caption, w2) \<Rightarrow>
                (let w3 = emit (Print ([9989] @ lit '' Caption: '' @ caption)) w2
                 in if enable_tts then
                      (let w4 = emit (Print ([128266] @ lit '' Generating audio...'')) w3
                       in case text_to_speech e w4 caption (lit ''en'') False of
                            (audio_path, w5) \<Rightarrow> ((caption, audio_path), w5))
                    else ((caption, None), w3))))"

definition answer_with_audio ::
  "env \<Rightarrow> world \<Rightarrow> py_value \<Rightarrow> py_str \<Rightarrow> bool \<Rightarrow> (py_str \<times> py_str option) \<times> world" where
  "answer_with_audio e w img question enable_tts =
     (if img = PyNone then ((upload_first_message, None), w)
      else if blank question then ((enter_question_message, None), w)
      else
        (let w1 = emit (Print ([10067] @ lit '' Question: '' @ question)) w
         in case answer_question e w1 img question default_max_length of
              (Inl x, w2) \<Rightarrow> ((error_message x, None), emit (Print (error_message x)) w2)
            | (Inr answer, w2) \<Rightarrow>
                (let w3 = emit (Print ([9989] @ lit '' Answer: '' @ answer)) w2
                 in if enable_tts then
                      (let w4 = emit (Print ([128266] @ lit '' Generating audio...'')) w3
                       in case text_to_speech e w4 answer (lit ''en'') False of
                            (audio_path, w5) \<Rightarrow> ((answer, audio_path), w5))
                    else ((answer, None), w3))))"

definition capture_and_caption ::
  "env \<Rightarrow> world \<Rightarrow> bool \<Rightarrow> (ndarray option \<times> py_str \<times> py_str option) \<times> world" where
  "capture_and_caption e w enable_tts =
     (let w1 = emit (Print ([128248] @ lit '' Capturing webcam frame...'')) w
      in case capture_webcam_frame e w1 of
           (None, w2) \<Rightarrow> ((None, capture_failed_message, None), w2)
         | (Some frame, w2) \<Rightarrow>
             (case caption_image e w2 (NdArray frame) default_max_length of
                (Inl x, w3) \<Rightarrow>
                  ((None, error_message x, None), emit (Print (error_message x)) w3)
              | (Inr caption, w3) \<Rightarrow>
                  (let w4 = emit (Print ([9989] @ lit '' Caption: '' @ caption)) w3
                   in if enable_tts then
                        (case text_to_speech e w4 caption (lit ''en'') False of
                           (audio_path, w5) \<Rightarrow> ((Some frame, caption, audio_path), w5))
                      else ((Some frame, caption, None), w4))))"

subsection \<open>Runs of the process\<close>

text \<open>
  A run is a list of calls of the two inference functions, each under what the libraries
  answer at that moment, served one after the other on the same globals.
\<close>

datatype request =
    CaptionRequest env py_value int
  | AnswerRequest env py_value py_str int

fun serve :: "world \<Rightarrow> request \<Rightarrow> world" where
  "serve w (CaptionRequest e img n) = snd (caption_image e w img n)"
| "serve w (AnswerRequest e img q n) = snd (answer_question e w img q n)"

definition serve_all :: "world \<Rightarrow> request list \<Rightarrow> world" where
  "serve_all w rs = foldl serve w rs"

text \<open>Libraries that never raise: every file is a 640 by 480 RGB image, and so on.\<close>

definition quiet_env :: env where
  "quiet_env =
     \<lparr>cuda_is_available = False, mps_is_available = False,
      processor_from_pretrained = (\<lambda>name. None),
      model_from_pretrained = (\<lambda>name dev. None),
      image_open = (\<lambda>path. Inr \<lparr>img_mode = ModeRGBA, img_width = 640, img_height = 480\<rparr>),
      processor_call = (\<lambda>i q. None),
      model_generate = (\<lambda>m i n. Inr [[101, 1037, 4937, 102]]),
      processor_decode = (\<lambda>toks skip. lit ''a cat''),
      named_temporary_file = Inr (lit ''/tmp/tmpab12.mp3''),
      gtts_new = (\<lambda>t l s. None),
      gtts_save = (\<lambda>t p. None),
      video_capture = Inr True,
      cap_read = Inr (Some \<lparr>nd_shape = [480, 640, 3]\<rparr>),
      cvt_color = (\<lambda>a. Inr a)\<rparr>"

text \<open>
  The libraries answer so that the two \<^verbatim>\<open>from_pretrained\<close> calls of
  \<^verbatim>\<open>load_caption_model\<close> (the second with \<^verbatim>\<open>.to(device)\<close>) do not raise. A request
  is constructing when it is a \<^verbatim>\<open>caption_image\<close> call under such answers.
\<close>

definition construction_succeeds :: "env \<Rightarrow> bool" where
  "construction_succeeds e \<longleftrightarrow>
     processor_from_pretrained e caption_checkpoint = None \<and>
     model_from_pretrained e caption_checkpoint (get_device e) = None"

fun constructing :: "request \<Rightarrow> bool" where
  "constructing (CaptionRequest e img n) = construction_succeeds e"
| "constructing (AnswerRequest e img q n) = False"

fun is_caption_request :: "request \<Rightarrow> bool" where
  "is_caption_request (CaptionRequest e img n) = True"
| "is_caption_request (AnswerRequest e img q n) = False"

text \<open>How many times a line was printed so far.\<close>

definition printed :: "py_str \<Rightarrow> world \<Rightarrow> nat" where
  "printed s w = count_list (trace w) (Print s)"

subsection \<open>Library answers used in the examples\<close>

text \<open>
  Variations of \<open>quiet_env\<close>: the accelerator is there; the download of the model weights
  fails; \<^verbatim>\<open>cap.read()\<close> raises; no temporary file can be created; the camera does not
  open.
\<close>

definition cuda_env :: env where
  "cuda_env = quiet_env\<lparr>cuda_is_available := True\<rparr>"

definition load_fails_env :: env where
  "load_fails_env =
     quiet_env\<lparr>model_from_pretrained :=
       (\<lambda>name dev. Some (OtherError (lit ''OSError'') (lit ''download failed'')))\<rparr>"

definition read_raises_env :: env where
  "read_raises_env = quiet_env\<lparr>cap_read := Inl (OtherError (lit ''cv2.error'') (lit ''read failed''))\<rparr>"

definition tempfile_fails_env :: env where
  "tempfile_fails_env =
     quiet_env\<lparr>named_temporary_file :=
       Inl (OtherError (lit ''FileNotFoundError'') (lit ''No usable temporary directory found''))\<rparr>"

definition no_camera_env :: env where
  "no_camera_env = quiet_env\<lparr>video_capture := Inr False\<rparr>"

section \<open>Properties\<close>

subsection \<open>Blank strings\<close>

lemma dropWhile_all: "(\<forall>x\<in>set (dropWhile P s). P x) \<longleftrightarrow> (\<forall>x\<in>set s. P x)"
  by (induction s) auto

lemma py_strip_Nil_iff: "py_strip s = [] \<longleftrightarrow> (\<forall>c\<in>set s. py_isspace c)"
  by (simp add: py_strip_def dropWhile_all)

text \<open>The test of the source holds exactly of the empty and the whitespace-only strings.\<close>

lemma blank_iff: "blank s \<longleftrightarrow> (\<forall>c\<in>set s. py_isspace c)"
  by (auto simp: blank_def py_strip_Nil_iff)

subsection \<open>The image normaliser\<close>

lemma prepare_image_unsupported:
  "\<not> supported_image v \<Longrightarrow>
   prepare_image e w v = (Inl (ValueError (unsupported_image_message v)), w)"
  by (cases v) simp_all


text \<open>
  Claim C6. \<^verbatim>\<open>prepare_image\<close> takes exactly three shapes of input: a string (a file path),
  an array, a decoded image. On a value of any other type, \<^verbatim>\<open>None\<close> included, it raises
  the \<^verbatim>\<open>ValueError\<close> whose message is \<^verbatim>\<open>Unsupported image type: <class 'T'>\<close> with \<open>T\<close>
  the name of the type of the value, and does nothing else. On the three shapes it fails
  only when the library that decodes the file or the array does, and never on a decoded
  image.
\<close>

theorem prepare_image_accepts_three_shapes:
  "(supported_image v \<longleftrightarrow> (\<exists>p. v = PyStr p) \<or> (\<exists>a. v = NdArray a) \<or> (\<exists>i. v = PilImage i)) \<and>
   (\<not> supported_image v \<longrightarrow>
      prepare_image e w v =
        (Inl (ValueError
           (lit ''Unsupported image type: <class '' @ [39] @ type_name v @ [39] @ lit ''>'')), w)) \<and>
   (isl (fst (prepare_image e w (PyStr p))) \<longleftrightarrow> isl (image_open e p)) \<and>
   (isl (fst (prepare_image e w (NdArray a))) \<longleftrightarrow> isl (fromarray a)) \<and>
   \<not> isl (fst (prepare_image e w (PilImage i)))"
proof -
  have shapes:
    "supported_image v \<longleftrightarrow> (\<exists>p. v = PyStr p) \<or> (\<exists>a. v = NdArray a) \<or> (\<exists>i. v = PilImage i)"
    by (cases v) simp_all
  have refuse: "\<not> supported_image v \<longrightarrow>
      prepare_image e w v =
        (Inl (ValueError
           (lit ''Unsupported image type: <class '' @ [39] @ type_name v @ [39] @ lit ''>'')), w)"
    by (simp add: prepare_image_unsupported unsupported_image_message_def type_repr_def lit_def)
  have path: "isl (fst (prepare_image e w (PyStr p))) \<longleftrightarrow> isl (image_open e p)"
    by (simp split: sum.splits)
  have arr: "isl (fst (prepare_image e w (NdArray a))) \<longleftrightarrow> isl (fromarray a)"
    by (simp split: sum.splits)
  have pil: "\<not> isl (fst (prepare_image e w (PilImage i)))"
    by simp
  from shapes refuse path arr pil show ?thesis by blast
qed

theorem prepare_image_accepts_three_shapes_witness:
  "\<not> supported_image (PyObject (lit ''int'')) \<and>
   prepare_image quiet_env initial_world (PyObject (lit ''int'')) =
     (Inl (ValueError
        (lit ''Unsupported image type: <class '' @ [39] @ lit ''int'' @ [39] @ lit ''>'')),
      initial_world) \<and>
   \<not> isl (fst (prepare_image quiet_env initial_world (PyStr (lit ''data/cat.jpg'')))) \<and>
   isl (fst (prepare_image quiet_env initial_world (NdArray \<lparr>nd_shape = [4]\<rparr>)))"
  using prepare_image_accepts_three_shapes
    [of "PyObject (lit ''int'')" quiet_env initial_world "lit ''data/cat.jpg''"
        "\<lparr>nd_shape = [4]\<rparr>"]
  by (simp add: quiet_env_def fromarray_def)



subsection \<open>The sentinel of \<^verbatim>\<open>answer_question\<close>\<close>

text \<open>
  Claim C10. The test of the question is the first statement of \<^verbatim>\<open>answer_question\<close>: on
  an empty or whitespace-only question the sentinel is returned and nothing has happened,
  whatever the image argument is, also when it is of a type on which \<^verbatim>\<open>prepare_image\<close>
  raises its \<^verbatim>\<open>ValueError\<close>.
\<close>

theorem answer_question_checks_question_first:
  assumes "blank q"
  shows "answer_question e w v q n = (Inr question_sentinel, w) \<and>
         (\<not> supported_image v \<longrightarrow>
            prepare_image e w v = (Inl (ValueError (unsupported_image_message v)), w))"
  using assms by (simp add: answer_question_def prepare_image_unsupported)

theorem answer_question_checks_question_first_witness:
  "blank [32, 9, 160] \<and> \<not> supported_image (PyObject (lit ''dict'')) \<and>
   answer_question quiet_env initial_world (PyObject (lit ''dict'')) [32, 9, 160] 50 =
     (Inr (lit ''Please ask a question about the image.''), initial_world) \<and>
   isl (fst (prepare_image quiet_env initial_world (PyObject (lit ''dict''))))"
proof -
  have b: "blank [32, 9, 160]"
    by (simp add: blank_def py_strip_def py_isspace_def)
  from answer_question_checks_question_first
         [OF b, of quiet_env initial_world "PyObject (lit ''dict'')" 50] b
  show ?thesis by (simp add: question_sentinel_def)
qed

subsection \<open>Traces and loaders\<close>

lemma trace_emit: "trace (emit ev w) = trace w @ [ev]"
  by (simp add: emit_def)

lemma emit_fields [simp]:
  "caption_model (emit ev w) = caption_model w"
  "caption_processor (emit ev w) = caption_processor w"
  "vqa_model (emit ev w) = vqa_model w"
  "vqa_processor (emit ev w) = vqa_processor w"
  "device (emit ev w) = device w"
  "next_obj (emit ev w) = next_obj w"
  "cam_open_handles (emit ev w) = cam_open_handles w"
  by (simp_all add: emit_def)

lemma load_caption_model_loaded:
  "caption_model w = Some h \<Longrightarrow>
   load_caption_model e w = (Inr (h, caption_processor w, device w), w)"
  by (simp add: load_caption_model_def)

lemma load_vqa_model_loaded:
  "vqa_model w = Some h \<Longrightarrow> load_vqa_model e w = (Inr (h, vqa_processor w, device w), w)"
  by (simp add: load_vqa_model_def)

lemma load_caption_model_trace:
  "\<exists>evs. trace (snd (load_caption_model e w)) = trace w @ evs"
  by (simp add: load_caption_model_def Let_def trace_emit split: option.splits)

lemma load_vqa_model_trace:
  "\<exists>evs. trace (snd (load_vqa_model e w)) = trace w @ evs"
  by (simp add: load_vqa_model_def Let_def trace_emit split: option.splits)

lemma load_vqa_model_starts:
  "vqa_model w = None \<Longrightarrow>
   \<exists>evs. trace (snd (load_vqa_model e w)) = trace w @ Print vqa_loading_line # evs"
  by (simp add: load_vqa_model_def Let_def trace_emit split: option.splits)

lemma prepare_image_trace:
  "\<exists>evs. trace (snd (prepare_image e w v)) = trace w @ evs"
  by (cases v) (simp_all add: trace_emit split: sum.splits)

lemma generate_text_trace:
  "\<exists>evs. trace (snd (generate_text e w m p d pil q n)) = trace w @ evs"
  by (simp add: generate_text_def Let_def trace_emit split: option.splits sum.splits list.splits)

lemma generate_text_ok:
  assumes "processor_call e pil q = None"
      and "model_generate e m \<lparr>in_image = pil, in_text = q, in_device = d\<rparr> n = Inr (out0 # rest)"
  shows "generate_text e w m (Some p) d pil q n =
     (Inr (processor_decode e out0 True),
      w\<lparr>trace := trace w @ [ProcessorCall (pr_id p), ModelGenerate (mh_id m) n,
                              ProcessorDecode (pr_id p) True]\<rparr>)"
  using assms by (simp add: generate_text_def Let_def emit_def)

lemma load_caption_model_get_device:
  "caption_model w = None \<Longrightarrow>
   count_list (events_since w (snd (load_caption_model e w))) GetDevice = 1 \<and>
   device (snd (load_caption_model e w)) = Some (get_device e)"
  by (simp add: load_caption_model_def Let_def trace_emit events_since_def split: option.splits)

lemma load_vqa_model_get_device:
  "vqa_model w = None \<Longrightarrow>
   count_list (events_since w (snd (load_vqa_model e w))) GetDevice = 1 \<and>
   device (snd (load_vqa_model e w)) = Some (get_device e)"
  by (simp add: load_vqa_model_def Let_def trace_emit events_since_def split: option.splits)

lemma load_caption_model_returns_device:
  "load_caption_model e w = (Inr (m, p, d), w') \<Longrightarrow> d = device w' \<and> caption_model w' = Some m"
  by (auto simp: load_caption_model_def Let_def split: option.splits)

lemma load_vqa_model_returns_device:
  "load_vqa_model e w = (Inr (m, p, d), w') \<Longrightarrow> d = device w' \<and> vqa_model w' = Some m"
  by (auto simp: load_vqa_model_def Let_def split: option.splits)

lemma answer_question_after_load:
  assumes "\<not> blank q"
  shows "\<exists>evs. trace (snd (answer_question e w v q n)) = trace (snd (load_vqa_model e w)) @ evs"
proof (cases "load_vqa_model e w")
  case (Pair r w1)
  show ?thesis
  proof (cases r)
    case (Inl x)
    with Pair assms show ?thesis by (simp add: answer_question_def)
  next
    case (Inr t)
    obtain m p d where t: "t = (m, p, d)" by (cases t)
    show ?thesis
    proof (cases "prepare_image e w1 v")
      case (Pair r2 w2)
      note pi = this
      obtain evs2 where e2: "trace w2 = trace w1 @ evs2"
        using prepare_image_trace [of e w1 v] pi by auto
      show ?thesis
      proof (cases r2)
        case (Inl x)
        with pi \<open>load_vqa_model e w = (r, w1)\<close> Inr t assms e2 show ?thesis
          by (simp add: answer_question_def)
      next
        case (Inr pil)
        obtain evs3 where e3:
          "trace (snd (generate_text e w2 m p d pil (Some q) n)) = trace w2 @ evs3"
          using generate_text_trace by blast
        from Inr pi \<open>load_vqa_model e w = (r, w1)\<close> \<open>r = Inr t\<close> t assms e2 e3 show ?thesis
          by (simp add: answer_question_def)
      qed
    qed
  qed
qed

subsection \<open>The compute device\<close>

text \<open>
  Claim C2, as the code has it. \<^verbatim>\<open>get_device\<close> picks \<^verbatim>\<open>cuda\<close>, else \<^verbatim>\<open>mps\<close>, else
  \<^verbatim>\<open>cpu\<close>. It is run by each loader whose handle does not exist yet, once in that call,
  and its result overwrites the one global \<^verbatim>\<open>device\<close>; a loader whose handle exists
  changes nothing. Both loaders return the global \<^verbatim>\<open>device\<close> as it is after the call. So
  the device is resolved once for each handle that is constructed, not once for the
  process.
\<close>

theorem device_resolved_at_each_construction:
  "(cuda_is_available e \<longrightarrow> get_device e = lit ''cuda'') \<and>
   (\<not> cuda_is_available e \<longrightarrow> mps_is_available e \<longrightarrow> get_device e = lit ''mps'') \<and>
   (\<not> cuda_is_available e \<longrightarrow> \<not> mps_is_available e \<longrightarrow> get_device e = lit ''cpu'') \<and>
   (caption_model w = None \<longrightarrow>
      count_list (events_since w (snd (load_caption_model e w))) GetDevice = 1 \<and>
      device (snd (load_caption_model e w)) = Some (get_device e)) \<and>
   (vqa_model w = None \<longrightarrow>
      count_list (events_since w (snd (load_vqa_model e w))) GetDevice = 1 \<and>
      device (snd (load_vqa_model e w)) = Some (get_device e)) \<and>
   (caption_model w \<noteq> None \<longrightarrow> snd (load_caption_model e w) = w) \<and>
   (vqa_model w \<noteq> None \<longrightarrow> snd (load_vqa_model e w) = w) \<and>
   (\<forall>m p d w'. load_caption_model e w = (Inr (m, p, d), w') \<longrightarrow> d = device w') \<and>
   (\<forall>m p d w'. load_vqa_model e w = (Inr (m, p, d), w') \<longrightarrow> d = device w')"
proof -
  have order:
    "(cuda_is_available e \<longrightarrow> get_device e = lit ''cuda'') \<and>
     (\<not> cuda_is_available e \<longrightarrow> mps_is_available e \<longrightarrow> get_device e = lit ''mps'') \<and>
     (\<not> cuda_is_available e \<longrightarrow> \<not> mps_is_available e \<longrightarrow> get_device e = lit ''cpu'')"
    by (simp add: get_device_def)
  have kept: "caption_model w \<noteq> None \<longrightarrow> snd (load_caption_model e w) = w"
    "vqa_model w \<noteq> None \<longrightarrow> snd (load_vqa_model e w) = w"
    by (auto simp: load_caption_model_loaded load_vqa_model_loaded)
  have shared: "\<forall>m p d w'. load_caption_model e w = (Inr (m, p, d), w') \<longrightarrow> d = device w'"
    "\<forall>m p d w'. load_vqa_model e w = (Inr (m, p, d), w') \<longrightarrow> d = device w'"
    using load_caption_model_returns_device load_vqa_model_returns_device by blast+
  from order kept shared load_caption_model_get_device [of w e] load_vqa_model_get_device [of w e]
  show ?thesis by blast
qed

theorem device_resolved_at_each_construction_witness:
  "\<not> cuda_is_available quiet_env \<and> \<not> mps_is_available quiet_env \<and>
   get_device quiet_env = lit ''cpu'' \<and> get_device cuda_env = lit ''cuda'' \<and>
   vqa_model (snd (load_caption_model cuda_env initial_world)) = None \<and>
   count_list
     (events_since (snd (load_caption_model cuda_env initial_world))
        (snd (load_vqa_model quiet_env (snd (load_caption_model cuda_env initial_world)))))
     GetDevice = 1 \<and>
   device (snd (load_vqa_model quiet_env (snd (load_caption_model cuda_env initial_world)))) =
     Some (lit ''cpu'')"
proof -
  have flags: "\<not> cuda_is_available quiet_env" "\<not> mps_is_available quiet_env"
    "cuda_is_available cuda_env"
    by (simp_all add: quiet_env_def cuda_env_def)
  have none: "vqa_model (snd (load_caption_model cuda_env initial_world)) = None"
    by (simp add: load_caption_model_def initial_world_def Let_def split: option.splits)
  from device_resolved_at_each_construction
         [of quiet_env "snd (load_caption_model cuda_env initial_world)"]
       device_resolved_at_each_construction [of cuda_env initial_world]
       flags none
  show ?thesis by simp
qed

text \<open>
  Loading the captioning handle and then the question-answering handle runs \<^verbatim>\<open>get_device\<close>
  twice. When the accelerator is gone in between, the captioning handle stays on
  \<^verbatim>\<open>cuda\<close> while the global \<^verbatim>\<open>device\<close>, which \<^verbatim>\<open>load_caption_model\<close> returns from then
  on, says \<^verbatim>\<open>cpu\<close>.
\<close>

theorem get_device_rerun_counterexample:
  "count_list
     (trace (snd (load_vqa_model quiet_env (snd (load_caption_model cuda_env initial_world)))))
     GetDevice = 2 \<and>
   map_option mh_device
     (caption_model (snd (load_vqa_model quiet_env (snd (load_caption_model cuda_env initial_world)))))
     = Some (lit ''cuda'') \<and>
   device (snd (load_vqa_model quiet_env (snd (load_caption_model cuda_env initial_world))))
     = Some (lit ''cpu'')"
  by (simp add: load_vqa_model_def load_caption_model_def cuda_env_def quiet_env_def
        initial_world_def get_device_def emit_def Let_def)

subsection \<open>Question answering and captioning\<close>

text \<open>
  Claim C4. On an empty or whitespace-only question \<^verbatim>\<open>answer_question\<close> returns the
  sentinel and the process state is what it was: no handle was loaded and no event was
  added, whatever the image. On any other question the short-circuit is not taken: when
  the handle does not exist yet the first thing that happens is the loading line of
  \<^verbatim>\<open>load_vqa_model\<close>, and when loading, normalising and encoding do not raise, the
  generation routine of the question-answering handle is called.
\<close>

theorem answer_question_sentinel_or_model:
  "(blank q \<longrightarrow>
      answer_question e w v q n = (Inr question_sentinel, w) \<and>
      events_since w (snd (answer_question e w v q n)) = []) \<and>
   (\<not> blank q \<longrightarrow> vqa_model w = None \<longrightarrow>
      hd (events_since w (snd (answer_question e w v q n))) = Print vqa_loading_line) \<and>
   (\<not> blank q \<longrightarrow> load_vqa_model e w = (Inr (m, Some p, d), w1) \<longrightarrow>
      prepare_image e w1 v = (Inr pil, w2) \<longrightarrow> processor_call e pil (Some q) = None \<longrightarrow>
      ModelGenerate (mh_id m) n \<in> set (events_since w (snd (answer_question e w v q n))))"
proof -
  have one: "blank q \<longrightarrow>
      answer_question e w v q n = (Inr question_sentinel, w) \<and>
      events_since w (snd (answer_question e w v q n)) = []"
    by (simp add: answer_question_def events_since_def)
  have two: "\<not> blank q \<longrightarrow> vqa_model w = None \<longrightarrow>
      hd (events_since w (snd (answer_question e w v q n))) = Print vqa_loading_line"
  proof (intro impI)
    assume nb: "\<not> blank q" and none: "vqa_model w = None"
    obtain evs1 where e1: "trace (snd (load_vqa_model e w)) = trace w @ Print vqa_loading_line # evs1"
      using load_vqa_model_starts [OF none] by blast
    obtain evs2 where e2:
      "trace (snd (answer_question e w v q n)) = trace (snd (load_vqa_model e w)) @ evs2"
      using answer_question_after_load [OF nb] by blast
    from e1 e2 show "hd (events_since w (snd (answer_question e w v q n))) = Print vqa_loading_line"
      by (simp add: events_since_def)
  qed
  have three: "\<not> blank q \<longrightarrow> load_vqa_model e w = (Inr (m, Some p, d), w1) \<longrightarrow>
      prepare_image e w1 v = (Inr pil, w2) \<longrightarrow> processor_call e pil (Some q) = None \<longrightarrow>
      ModelGenerate (mh_id m) n \<in> set (events_since w (snd (answer_question e w v q n)))"
  proof (intro impI)
    assume nb: "\<not> blank q" and l: "load_vqa_model e w = (Inr (m, Some p, d), w1)"
      and pi: "prepare_image e w1 v = (Inr pil, w2)" and pc: "processor_call e pil (Some q) = None"
    obtain evs1 where e1: "trace w1 = trace w @ evs1"
      using load_vqa_model_trace [of e w] l by auto
    obtain evs2 where e2: "trace w2 = trace w1 @ evs2"
      using prepare_image_trace [of e w1 v] pi by auto
    have "\<exists>evs3. trace (snd (generate_text e w2 m (Some p) d pil (Some q) n)) =
            trace w2 @ ProcessorCall (pr_id p) # ModelGenerate (mh_id m) n # evs3"
      using pc by (simp add: generate_text_def Let_def trace_emit split: sum.splits list.splits)
    then obtain evs3 where e3: "trace (snd (generate_text e w2 m (Some p) d pil (Some q) n)) =
            trace w2 @ ProcessorCall (pr_id p) # ModelGenerate (mh_id m) n # evs3" ..
    have "snd (answer_question e w v q n) = snd (generate_text e w2 m (Some p) d pil (Some q) n)"
      using nb l pi by (simp add: answer_question_def)
    with e1 e2 e3 show "ModelGenerate (mh_id m) n \<in> set (events_since w (snd (answer_question e w v q n)))"
      by (simp add: events_since_def)
  qed
  from one two three show ?thesis by blast
qed

theorem answer_question_sentinel_or_model_witness:
  "blank [32] \<and> \<not> blank (lit ''why'') \<and>
   answer_question quiet_env initial_world (PilImage \<lparr>img_mode = ModeL, img_width = 2, img_height = 2\<rparr>)
       [32] 50 = (Inr question_sentinel, initial_world) \<and>
   hd (events_since initial_world
        (snd (answer_question quiet_env initial_world
           (PilImage \<lparr>img_mode = ModeL, img_width = 2, img_height = 2\<rparr>) (lit ''why'') 50))) =
     Print vqa_loading_line \<and>
   ModelGenerate 1 50 \<in> set (events_since initial_world
        (snd (answer_question quiet_env initial_world
           (PilImage \<lparr>img_mode = ModeL, img_width = 2, img_height = 2\<rparr>) (lit ''why'') 50)))"
proof -
  let ?m = "\<lparr>mh_id = 1, mh_checkpoint = vqa_checkpoint, mh_device = lit ''cpu''\<rparr>"
  let ?p = "\<lparr>pr_id = 0, pr_checkpoint = vqa_checkpoint\<rparr>"
  let ?w1 = "snd (load_vqa_model quiet_env initial_world)"
  let ?v = "PilImage \<lparr>img_mode = ModeL, img_width = 2, img_height = 2\<rparr>"
  let ?pil = "\<lparr>img_mode = ModeRGB, img_width = 2, img_height = 2\<rparr>"
  have b: "blank [32]"
    by (simp add: blank_def py_strip_def py_isspace_def)
  have nb: "\<not> blank (lit ''why'')"
    by (simp add: blank_def lit_def py_strip_def py_isspace_def)
  have none: "vqa_model initial_world = None"
    by (simp add: initial_world_def)
  have "fst (load_vqa_model quiet_env initial_world) = Inr (?m, Some ?p, Some (lit ''cpu''))"
    by (simp add: load_vqa_model_def quiet_env_def initial_world_def get_device_def Let_def)
  then have l: "load_vqa_model quiet_env initial_world =
      (Inr (?m, Some ?p, Some (lit ''cpu'')), ?w1)"
    by (metis prod.collapse)
  have pi: "prepare_image quiet_env ?w1 ?v = (Inr ?pil, ?w1)"
    by (simp add: convert_def)
  have pc: "processor_call quiet_env ?pil (Some (lit ''why'')) = None"
    by (simp add: quiet_env_def)
  from answer_question_sentinel_or_model
         [of "[32]" quiet_env initial_world ?v 50] b
  have one: "answer_question quiet_env initial_world ?v [32] 50 = (Inr question_sentinel, initial_world)"
    by blast
  from answer_question_sentinel_or_model
         [of "lit ''why''" quiet_env initial_world ?v 50 ?m ?p "Some (lit ''cpu'')" ?w1 ?pil ?w1]
       nb none l pi pc
  have two: "hd (events_since initial_world
        (snd (answer_question quiet_env initial_world ?v (lit ''why'') 50))) = Print vqa_loading_line \<and>
     ModelGenerate 1 50 \<in> set (events_since initial_world
        (snd (answer_question quiet_env initial_world ?v (lit ''why'') 50)))"
    by simp
  from b nb one two show ?thesis by blast
qed

text \<open>
  Claim C9. When the handle loads, the image is normalised and the processor encodes it,
  \<^verbatim>\<open>caption_image\<close> calls the generation routine of the captioning handle once with
  \<^verbatim>\<open>max_length\<close> set to its argument, decodes the first of the returned sequences with
  \<^verbatim>\<open>skip_special_tokens=True\<close> and returns that string. The default of the argument is 50.
\<close>

theorem caption_image_generates_under_cap:
  assumes "load_caption_model e w = (Inr (m, Some p, d), w1)"
      and "prepare_image e w1 v = (Inr pil, w2)"
      and "processor_call e pil None = None"
      and "model_generate e m \<lparr>in_image = pil, in_text = None, in_device = d\<rparr> n =
             Inr (out0 # rest)"
  shows "fst (caption_image e w v n) = Inr (processor_decode e out0 True) \<and>
         events_since w2 (snd (caption_image e w v n)) =
           [ProcessorCall (pr_id p), ModelGenerate (mh_id m) n, ProcessorDecode (pr_id p) True] \<and>
         default_max_length = 50"
  using assms
  by (simp add: caption_image_def generate_text_ok events_since_def default_max_length_def)

theorem caption_image_generates_under_cap_witness:
  "fst (caption_image quiet_env initial_world (NdArray \<lparr>nd_shape = [480, 640, 3]\<rparr>) 50) =
     Inr (lit ''a cat'') \<and>
   events_since
     (snd (prepare_image quiet_env (snd (load_caption_model quiet_env initial_world))
        (NdArray \<lparr>nd_shape = [480, 640, 3]\<rparr>)))
     (snd (caption_image quiet_env initial_world (NdArray \<lparr>nd_shape = [480, 640, 3]\<rparr>) 50)) =
     [ProcessorCall 0, ModelGenerate 1 50, ProcessorDecode 0 True]"
proof -
  let ?m = "\<lparr>mh_id = 1, mh_checkpoint = caption_checkpoint, mh_device = lit ''cpu''\<rparr>"
  let ?p = "\<lparr>pr_id = 0, pr_checkpoint = caption_checkpoint\<rparr>"
  let ?w1 = "snd (load_caption_model quiet_env initial_world)"
  let ?v = "NdArray \<lparr>nd_shape = [480, 640, 3]\<rparr>"
  let ?pil = "\<lparr>img_mode = ModeRGB, img_width = 640, img_height = 480\<rparr>"
  have "fst (load_caption_model quiet_env initial_world) = Inr (?m, Some ?p, Some (lit ''cpu''))"
    by (simp add: load_caption_model_def quiet_env_def initial_world_def get_device_def Let_def)
  then have l: "load_caption_model quiet_env initial_world =
      (Inr (?m, Some ?p, Some (lit ''cpu'')), ?w1)"
    by (metis prod.collapse)
  have "fst (prepare_image quiet_env ?w1 ?v) = Inr ?pil"
    by (simp add: fromarray_def convert_def)
  then have pi: "prepare_image quiet_env ?w1 ?v = (Inr ?pil, snd (prepare_image quiet_env ?w1 ?v))"
    by (metis prod.collapse)
  have pc: "processor_call quiet_env ?pil None = None"
    by (simp add: quiet_env_def)
  have g: "model_generate quiet_env ?m
      \<lparr>in_image = ?pil, in_text = None, in_device = Some (lit ''cpu'')\<rparr> 50 =
      Inr ([101, 1037, 4937, 102] # [])"
    by (simp add: quiet_env_def)
  have dec: "processor_decode quiet_env [101, 1037, 4937, 102] True = lit ''a cat''"
    by (simp add: quiet_env_def)
  note r = caption_image_generates_under_cap [OF l pi pc g]
  from r have r1: "fst (caption_image quiet_env initial_world ?v 50) =
      Inr (processor_decode quiet_env [101, 1037, 4937, 102] True)"
    by (rule conjunct1)
  from r have r2: "events_since (snd (prepare_image quiet_env ?w1 ?v))
      (snd (caption_image quiet_env initial_world ?v 50)) =
      [ProcessorCall (pr_id ?p), ModelGenerate (mh_id ?m) 50, ProcessorDecode (pr_id ?p) True]"
    by (rule conjunct1 [OF conjunct2])
  from r1 r2 dec show ?thesis by simp
qed

subsection \<open>The camera\<close>

text \<open>
  On every path on which \<^verbatim>\<open>cap.read()\<close> returns, and when the device does not open, the
  number of handles that hold the device is the same after the call as before it.
\<close>

lemma capture_webcam_frame_balanced:
  "\<not> (video_capture e = Inr True \<and> isl (cap_read e)) \<Longrightarrow>
   cam_open_handles (snd (capture_webcam_frame e w)) = cam_open_handles w"
  by (auto simp: capture_webcam_frame_def Let_def split: sum.splits option.splits)

text \<open>
  Claim C1, at the input where it fails. The device opens and \<^verbatim>\<open>cap.read()\<close> raises.
  Control goes to the \<^verbatim>\<open>except\<close> clause: the function prints and returns \<^verbatim>\<open>None\<close>, and
  \<^verbatim>\<open>cap.release()\<close>, the statement after the read, is never run. One handle holds the
  device after the call, and the trace has no \<open>CapRelease\<close>.
\<close>

theorem capture_webcam_frame_read_raises_keeps_device:
  "fst (capture_webcam_frame read_raises_env initial_world) = None \<and>
   cam_open_handles initial_world = 0 \<and>
   cam_open_handles (snd (capture_webcam_frame read_raises_env initial_world)) = 1 \<and>
   trace (snd (capture_webcam_frame read_raises_env initial_world)) =
     [VideoCapture, CapRead,
      Print (capture_error_line (OtherError (lit ''cv2.error'') (lit ''read failed'')))]"
  by (simp add: capture_webcam_frame_def read_raises_env_def quiet_env_def initial_world_def
        emit_def Let_def)

subsection \<open>Speech\<close>

text \<open>
  Claim C5, as the code has it. \<^verbatim>\<open>text_to_speech\<close> returns \<^verbatim>\<open>None\<close> exactly when the
  text is empty or whitespace-only, or a statement of the \<^verbatim>\<open>try\<close> block raises: creating
  the temporary file, constructing the backend object, or saving. On a blank text nothing
  is called and the state is unchanged. In the other cases of \<^verbatim>\<open>None\<close> the last thing
  done is printing the error line. Otherwise the result is the path of the temporary file,
  on which the backend was constructed and saved. The result is an option: nothing is
  raised.
\<close>

theorem text_to_speech_none_cases:
  "(fst (text_to_speech e w text lang slow) = None \<longleftrightarrow>
      blank text \<or> isl (named_temporary_file e) \<or>
      (\<exists>p. named_temporary_file e = Inr p \<and>
           (gtts_new e text lang slow \<noteq> None \<or> gtts_save e text p \<noteq> None))) \<and>
   (blank text \<longrightarrow> text_to_speech e w text lang slow = (None, w)) \<and>
   (\<not> blank text \<longrightarrow> fst (text_to_speech e w text lang slow) = None \<longrightarrow>
      (\<exists>x. last (trace (snd (text_to_speech e w text lang slow))) = Print (speech_error_line x))) \<and>
   (\<forall>p. fst (text_to_speech e w text lang slow) = Some p \<longrightarrow>
      named_temporary_file e = Inr p \<and>
      events_since w (snd (text_to_speech e w text lang slow)) =
        [NamedTemporaryFile, GttsNew text lang slow, GttsSave p,
         Print ([128266] @ lit '' Audio generated: '' @ p)])"
proof -
  have a: "fst (text_to_speech e w text lang slow) = None \<longleftrightarrow>
      blank text \<or> isl (named_temporary_file e) \<or>
      (\<exists>p. named_temporary_file e = Inr p \<and>
           (gtts_new e text lang slow \<noteq> None \<or> gtts_save e text p \<noteq> None))"
    by (auto simp: text_to_speech_def Let_def split: sum.splits option.splits)
  have b: "blank text \<longrightarrow> text_to_speech e w text lang slow = (None, w)"
    by (simp add: text_to_speech_def)
  have c: "\<not> blank text \<longrightarrow> fst (text_to_speech e w text lang slow) = None \<longrightarrow>
      (\<exists>x. last (trace (snd (text_to_speech e w text lang slow))) = Print (speech_error_line x))"
    by (auto simp: text_to_speech_def Let_def trace_emit split: sum.splits option.splits)
  have d: "\<forall>p. fst (text_to_speech e w text lang slow) = Some p \<longrightarrow>
      named_temporary_file e = Inr p \<and>
      events_since w (snd (text_to_speech e w text lang slow)) =
        [NamedTemporaryFile, GttsNew text lang slow, GttsSave p,
         Print ([128266] @ lit '' Audio generated: '' @ p)]"
    by (auto simp: text_to_speech_def Let_def trace_emit events_since_def
          split: sum.splits option.splits if_splits)
  from a b c d show ?thesis by blast
qed

theorem text_to_speech_none_cases_witness:
  "blank [32, 32, 32] \<and>
   text_to_speech quiet_env initial_world [32, 32, 32] (lit ''en'') False = (None, initial_world) \<and>
   fst (text_to_speech quiet_env initial_world (lit ''hello'') (lit ''en'') False) =
     Some (lit ''/tmp/tmpab12.mp3'') \<and>
   events_since initial_world
       (snd (text_to_speech quiet_env initial_world (lit ''hello'') (lit ''en'') False)) =
     [NamedTemporaryFile, GttsNew (lit ''hello'') (lit ''en'') False,
      GttsSave (lit ''/tmp/tmpab12.mp3''),
      Print ([128266] @ lit '' Audio generated: '' @ lit ''/tmp/tmpab12.mp3'')]"
proof -
  have b: "blank [32, 32, 32]"
    by (simp add: blank_def py_strip_def py_isspace_def)
  have nb: "\<not> blank (lit ''hello'')"
    by (simp add: blank_def lit_def py_strip_def py_isspace_def)
  have r: "fst (text_to_speech quiet_env initial_world (lit ''hello'') (lit ''en'') False) =
     Some (lit ''/tmp/tmpab12.mp3'')"
    using nb by (simp add: text_to_speech_def quiet_env_def Let_def)
  from text_to_speech_none_cases [of quiet_env initial_world "[32, 32, 32]" "lit ''en''" False] b
  have one: "text_to_speech quiet_env initial_world [32, 32, 32] (lit ''en'') False = (None, initial_world)"
    by blast
  from text_to_speech_none_cases [of quiet_env initial_world "lit ''hello''" "lit ''en''" False] r
  have two: "events_since initial_world
       (snd (text_to_speech quiet_env initial_world (lit ''hello'') (lit ''en'') False)) =
     [NamedTemporaryFile, GttsNew (lit ''hello'') (lit ''en'') False,
      GttsSave (lit ''/tmp/tmpab12.mp3''),
      Print ([128266] @ lit '' Audio generated: '' @ lit ''/tmp/tmpab12.mp3'')]"
    by blast
  from b one r two show ?thesis by blast
qed

text \<open>
  With no usable temporary directory the text is not blank and the backend is never
  called, so it raises nothing, and the result is \<^verbatim>\<open>None\<close> all the same.
\<close>

theorem text_to_speech_tempfile_counterexample:
  "\<not> blank (lit ''hello'') \<and>
   fst (text_to_speech tempfile_fails_env initial_world (lit ''hello'') (lit ''en'') False) = None \<and>
   trace (snd (text_to_speech tempfile_fails_env initial_world (lit ''hello'') (lit ''en'') False)) =
     [NamedTemporaryFile,
      Print (speech_error_line
        (OtherError (lit ''FileNotFoundError'') (lit ''No usable temporary directory found'')))]"
proof -
  have nb: "\<not> blank (lit ''hello'')"
    by (simp add: blank_def lit_def py_strip_def py_isspace_def)
  show ?thesis
    using nb
    by (simp add: text_to_speech_def tempfile_fails_env_def quiet_env_def initial_world_def
          emit_def Let_def)
qed

subsection \<open>The actions of the user interface\<close>

text \<open>
  Claim C8. Each of the three actions returns its tuple whatever the pipeline does. When
  \<^verbatim>\<open>caption_image\<close> or \<^verbatim>\<open>answer_question\<close> raises \<open>x\<close>, the text of the tuple is
  \<^verbatim>\<open>Error:\<close> followed by \<^verbatim>\<open>str(x)\<close> (after a cross mark) and the other slots are
  \<^verbatim>\<open>None\<close>. A missing image and a blank question give the two guidance texts. When
  \<^verbatim>\<open>capture_webcam_frame\<close> returns \<^verbatim>\<open>None\<close>, the capture action returns the
  capture-failed text. \<^verbatim>\<open>text_to_speech\<close> cannot raise, so these are all the exceptions
  of the pipelines.
\<close>

theorem actions_catch_every_exception:
  "fst (generate_caption_with_audio e w PyNone tts) = (upload_first_message, None) \<and>
   (img \<noteq> PyNone \<longrightarrow>
    caption_image e (emit (Print ([128444, 65039] @ lit '' Generating caption...'')) w) img
        default_max_length = (Inl x, w2) \<longrightarrow>
    generate_caption_with_audio e w img tts =
      ((error_message x, None), emit (Print (error_message x)) w2)) \<and>
   fst (answer_with_audio e w PyNone q tts) = (upload_first_message, None) \<and>
   (img \<noteq> PyNone \<longrightarrow> blank q \<longrightarrow>
    answer_with_audio e w img q tts = ((enter_question_message, None), w)) \<and>
   (img \<noteq> PyNone \<longrightarrow> \<not> blank q \<longrightarrow>
    answer_question e (emit (Print ([10067] @ lit '' Question: '' @ q)) w) img q
        default_max_length = (Inl x, w2) \<longrightarrow>
    answer_with_audio e w img q tts =
      ((error_message x, None), emit (Print (error_message x)) w2)) \<and>
   (capture_webcam_frame e (emit (Print ([128248] @ lit '' Capturing webcam frame...'')) w) =
        (None, w2) \<longrightarrow>
    capture_and_caption e w tts = ((None, capture_failed_message, None), w2)) \<and>
   (capture_webcam_frame e (emit (Print ([128248] @ lit '' Capturing webcam frame...'')) w) =
        (Some frame, w2) \<longrightarrow>
    caption_image e w2 (NdArray frame) default_max_length = (Inl x, w3) \<longrightarrow>
    capture_and_caption e w tts =
      ((None, error_message x, None), emit (Print (error_message x)) w3))"
  by (simp add: generate_caption_with_audio_def answer_with_audio_def capture_and_caption_def
        Let_def)

theorem actions_catch_every_exception_witness:
  "PyObject (lit ''int'') \<noteq> PyNone \<and> \<not> blank (lit ''why'') \<and>
   fst (generate_caption_with_audio quiet_env initial_world (PyObject (lit ''int'')) True) =
     (error_message (ValueError (unsupported_image_message (PyObject (lit ''int'')))), None) \<and>
   fst (answer_with_audio quiet_env initial_world (PyObject (lit ''int'')) (lit ''why'') True) =
     (error_message (ValueError (unsupported_image_message (PyObject (lit ''int'')))), None) \<and>
   fst (capture_and_caption no_camera_env initial_world True) =
     (None, capture_failed_message, None)"
proof -
  let ?v = "PyObject (lit ''int'')"
  let ?x = "ValueError (unsupported_image_message ?v)"
  let ?w1 = "emit (Print ([128444, 65039] @ lit '' Generating caption...'')) initial_world"
  let ?w2 = "emit (Print ([10067] @ lit '' Question: '' @ lit ''why'')) initial_world"
  let ?w3 = "emit (Print ([128248] @ lit '' Capturing webcam frame...'')) initial_world"
  have nb: "\<not> blank (lit ''why'')"
    by (simp add: blank_def lit_def py_strip_def py_isspace_def)
  have c: "fst (caption_image quiet_env ?w1 ?v default_max_length) = Inl ?x"
    by (simp add: caption_image_def load_caption_model_def quiet_env_def initial_world_def
          Let_def split: option.splits)
  have a: "fst (answer_question quiet_env ?w2 ?v (lit ''why'') default_max_length) = Inl ?x"
    using nb
    by (simp add: answer_question_def load_vqa_model_def quiet_env_def initial_world_def
          Let_def split: option.splits)
  have k: "fst (capture_webcam_frame no_camera_env ?w3) = None"
    by (simp add: capture_webcam_frame_def no_camera_env_def quiet_env_def Let_def)
  from c have c': "caption_image quiet_env ?w1 ?v default_max_length =
      (Inl ?x, snd (caption_image quiet_env ?w1 ?v default_max_length))"
    by (metis prod.collapse)
  from a have a': "answer_question quiet_env ?w2 ?v (lit ''why'') default_max_length =
      (Inl ?x, snd (answer_question quiet_env ?w2 ?v (lit ''why'') default_max_length))"
    by (metis prod.collapse)
  from k have k': "capture_webcam_frame no_camera_env ?w3 =
      (None, snd (capture_webcam_frame no_camera_env ?w3))"
    by (metis prod.collapse)
  have g1: "generate_caption_with_audio quiet_env initial_world ?v True =
      ((error_message ?x, None),
       emit (Print (error_message ?x)) (snd (caption_image quiet_env ?w1 ?v default_max_length)))"
    using actions_catch_every_exception
            [of quiet_env initial_world True ?v ?x
                "snd (caption_image quiet_env ?w1 ?v default_max_length)"] c'
    by simp
  have g2: "answer_with_audio quiet_env initial_world ?v (lit ''why'') True =
      ((error_message ?x, None),
       emit (Print (error_message ?x))
         (snd (answer_question quiet_env ?w2 ?v (lit ''why'') default_max_length)))"
    using actions_catch_every_exception
            [of quiet_env initial_world True ?v ?x
                "snd (answer_question quiet_env ?w2 ?v (lit ''why'') default_max_length)"
                "lit ''why''"] a' nb
    by simp
  have g3: "capture_and_caption no_camera_env initial_world True =
      ((None, capture_failed_message, None), snd (capture_webcam_frame no_camera_env ?w3))"
    using actions_catch_every_exception
            [of no_camera_env initial_world True _ _
                "snd (capture_webcam_frame no_camera_env ?w3)"] k'
    by simp
  from nb g1 g2 g3 show ?thesis by simp
qed

subsection \<open>The captioning handle over a run\<close>

lemma printed_emit:
  "printed s (emit ev w) = printed s w + (if ev = Print s then 1 else 0)"
  by (simp add: printed_def emit_def)

lemma printed_update [simp]:
  "printed s (w\<lparr>device := d\<rparr>) = printed s w"
  "printed s (w\<lparr>caption_model := cm\<rparr>) = printed s w"
  "printed s (w\<lparr>caption_processor := cp\<rparr>) = printed s w"
  "printed s (w\<lparr>vqa_model := vm\<rparr>) = printed s w"
  "printed s (w\<lparr>vqa_processor := vp\<rparr>) = printed s w"
  "printed s (w\<lparr>next_obj := k\<rparr>) = printed s w"
  by (simp_all add: printed_def)

lemma caption_lines_distinct:
  "caption_loading_line \<noteq> caption_loaded_line"
  "vqa_loading_line \<noteq> caption_loaded_line"
  "vqa_loaded_line \<noteq> caption_loaded_line"
  "vqa_loading_line \<noteq> caption_loading_line"
  "vqa_loaded_line \<noteq> caption_loading_line"
  "caption_loaded_line \<noteq> caption_loading_line"
  "lit ''Using device: '' @ d \<noteq> caption_loaded_line"
  "lit ''Using device: '' @ d \<noteq> caption_loading_line"
  by (simp_all add: caption_loading_line_def caption_loaded_line_def vqa_loading_line_def
        vqa_loaded_line_def lit_def)

lemma generate_text_keeps:
  "caption_model (snd (generate_text e w m p d pil q n)) = caption_model w \<and>
   printed s (snd (generate_text e w m p d pil q n)) = printed s w"
  by (simp add: generate_text_def Let_def printed_emit
        split: option.splits sum.splits list.splits)

lemma prepare_image_keeps:
  "caption_model (snd (prepare_image e w v)) = caption_model w \<and>
   printed s (snd (prepare_image e w v)) = printed s w"
  by (cases v) (simp_all add: printed_emit split: sum.splits)

lemma prepare_image_keepsD:
  "prepare_image e w v = (r, w') \<Longrightarrow>
   caption_model w' = caption_model w \<and> (\<forall>s. printed s w' = printed s w)"
  using prepare_image_keeps [of e w v] by simp

lemma load_vqa_model_keeps_caption:
  "caption_model (snd (load_vqa_model e w)) = caption_model w \<and>
   printed caption_loaded_line (snd (load_vqa_model e w)) = printed caption_loaded_line w \<and>
   printed caption_loading_line (snd (load_vqa_model e w)) = printed caption_loading_line w"
  by (simp add: load_vqa_model_def Let_def printed_emit caption_lines_distinct
        split: option.splits)

lemma load_caption_model_step:
  "(caption_model (snd (load_caption_model e w)) = None \<and>
      printed caption_loaded_line (snd (load_caption_model e w)) = printed caption_loaded_line w) \<or>
   (caption_model w = None \<and> caption_model (snd (load_caption_model e w)) \<noteq> None \<and>
      printed caption_loaded_line (snd (load_caption_model e w)) =
        printed caption_loaded_line w + 1) \<or>
   (caption_model w \<noteq> None \<and> snd (load_caption_model e w) = w)"
  by (simp add: load_caption_model_def Let_def printed_emit caption_lines_distinct
        split: option.splits)

lemma caption_image_after_load:
  "caption_model (snd (caption_image e w v n)) = caption_model (snd (load_caption_model e w)) \<and>
   printed s (snd (caption_image e w v n)) = printed s (snd (load_caption_model e w))"
  by (auto simp: caption_image_def generate_text_keeps
        split: prod.splits sum.splits dest: prepare_image_keepsD)

lemma answer_question_keeps_caption:
  "caption_model (snd (answer_question e w v q n)) = caption_model w \<and>
   printed caption_loaded_line (snd (answer_question e w v q n)) = printed caption_loaded_line w \<and>
   printed caption_loading_line (snd (answer_question e w v q n)) =
     printed caption_loading_line w"
proof (cases "blank q")
  case True
  then show ?thesis by (simp add: answer_question_def)
next
  case False
  have "caption_model (snd (answer_question e w v q n)) =
          caption_model (snd (load_vqa_model e w)) \<and>
        (\<forall>s. printed s (snd (answer_question e w v q n)) = printed s (snd (load_vqa_model e w)))"
    using False
    by (auto simp: answer_question_def generate_text_keeps
          split: prod.splits sum.splits dest: prepare_image_keepsD)
  with load_vqa_model_keeps_caption [of e w] show ?thesis by simp
qed

lemma serve_loaded:
  assumes "caption_model w = Some h"
  shows "caption_model (serve w r) = Some h \<and>
         printed caption_loaded_line (serve w r) = printed caption_loaded_line w \<and>
         printed caption_loading_line (serve w r) = printed caption_loading_line w"
proof (cases r)
  case (CaptionRequest e v n)
  from assms have "snd (load_caption_model e w) = w"
    by (simp add: load_caption_model_def)
  with CaptionRequest assms caption_image_after_load [of e w v n] show ?thesis by simp
next
  case (AnswerRequest e v q n)
  with assms answer_question_keeps_caption [of e w v q n] show ?thesis by simp
qed

lemma serve_step:
  "printed caption_loaded_line (serve w r) \<le> printed caption_loaded_line w + 1 \<and>
   (caption_model (serve w r) = None \<longrightarrow>
      printed caption_loaded_line (serve w r) = printed caption_loaded_line w)"
proof (cases r)
  case (CaptionRequest e v n)
  with load_caption_model_step [of e w] caption_image_after_load [of e w v n]
  show ?thesis by auto
next
  case (AnswerRequest e v q n)
  with answer_question_keeps_caption [of e w v q n] show ?thesis by simp
qed

lemma serve_all_loaded:
  "caption_model w = Some h \<Longrightarrow>
   caption_model (serve_all w rs) = Some h \<and>
   printed caption_loaded_line (serve_all w rs) = printed caption_loaded_line w \<and>
   printed caption_loading_line (serve_all w rs) = printed caption_loading_line w"
proof (induction rs arbitrary: w)
  case Nil
  then show ?case by (simp add: serve_all_def)
next
  case (Cons r rs)
  from serve_loaded [OF Cons.prems, of r] Cons.IH [of "serve w r"]
  show ?case by (simp add: serve_all_def)
qed

lemma serve_all_at_most_once:
  "printed caption_loaded_line (serve_all w rs) \<le> printed caption_loaded_line w + 1"
proof (induction rs arbitrary: w)
  case Nil
  then show ?case by (simp add: serve_all_def)
next
  case (Cons r rs)
  have unfold: "serve_all w (r # rs) = serve_all (serve w r) rs"
    by (simp add: serve_all_def)
  show ?case
  proof (cases "caption_model (serve w r)")
    case None
    with serve_step [of w r] have "printed caption_loaded_line (serve w r) = printed caption_loaded_line w"
      by simp
    with Cons.IH [of "serve w r"] unfold show ?thesis by simp
  next
    case (Some h)
    from serve_all_loaded [OF Some, of rs] serve_step [of w r] unfold show ?thesis by simp
  qed
qed

lemma load_caption_model_constructs:
  assumes "caption_model w = None" and "construction_succeeds e"
  shows "caption_model (snd (load_caption_model e w)) =
           Some \<lparr>mh_id = Suc (next_obj w), mh_checkpoint = caption_checkpoint,
                 mh_device = get_device e\<rparr> \<and>
         printed caption_loading_line (snd (load_caption_model e w)) =
           printed caption_loading_line w + 1 \<and>
         printed caption_loaded_line (snd (load_caption_model e w)) =
           printed caption_loaded_line w + 1"
  using assms
  by (simp add: load_caption_model_def construction_succeeds_def Let_def printed_emit
        caption_lines_distinct)

lemma load_caption_model_fails:
  assumes "caption_model w = None" and "\<not> construction_succeeds e"
  shows "isl (fst (load_caption_model e w)) \<and>
         caption_model (snd (load_caption_model e w)) = None \<and>
         printed caption_loading_line (snd (load_caption_model e w)) =
           printed caption_loading_line w + 1 \<and>
         printed caption_loaded_line (snd (load_caption_model e w)) =
           printed caption_loaded_line w"
  using assms
  by (auto simp: load_caption_model_def construction_succeeds_def Let_def printed_emit
        caption_lines_distinct split: option.splits)

lemma caption_image_raises_with_load:
  "isl (fst (load_caption_model e w)) \<Longrightarrow> isl (fst (caption_image e w v n))"
  by (auto simp: caption_image_def split: prod.splits sum.splits)

lemma caption_image_constructs:
  assumes "caption_model w = None" and "construction_succeeds e"
  shows "caption_model (snd (caption_image e w v n)) =
           Some \<lparr>mh_id = Suc (next_obj w), mh_checkpoint = caption_checkpoint,
                 mh_device = get_device e\<rparr> \<and>
         printed caption_loading_line (snd (caption_image e w v n)) =
           printed caption_loading_line w + 1 \<and>
         printed caption_loaded_line (snd (caption_image e w v n)) =
           printed caption_loaded_line w + 1"
  using load_caption_model_constructs [OF assms]
        caption_image_after_load [of e w v n caption_loading_line]
        caption_image_after_load [of e w v n caption_loaded_line]
  by simp

lemma caption_image_fails:
  assumes "caption_model w = None" and "\<not> construction_succeeds e"
  shows "isl (fst (caption_image e w v n)) \<and>
         caption_model (snd (caption_image e w v n)) = None \<and>
         printed caption_loading_line (snd (caption_image e w v n)) =
           printed caption_loading_line w + 1 \<and>
         printed caption_loaded_line (snd (caption_image e w v n)) =
           printed caption_loaded_line w"
  using load_caption_model_fails [OF assms]
        caption_image_after_load [of e w v n caption_loading_line]
        caption_image_after_load [of e w v n caption_loaded_line]
        caption_image_raises_with_load [of e w v n]
  by simp

lemma serve_not_constructing:
  assumes "caption_model w = None" and "\<not> constructing r"
  shows "caption_model (serve w r) = None \<and>
         printed caption_loaded_line (serve w r) = printed caption_loaded_line w \<and>
         printed caption_loading_line (serve w r) =
           printed caption_loading_line w + (if is_caption_request r then 1 else 0)"
proof (cases r)
  case (CaptionRequest e v n)
  with assms caption_image_fails [of w e v n] show ?thesis by simp
next
  case (AnswerRequest e v q n)
  with assms answer_question_keeps_caption [of e w v q n] show ?thesis by simp
qed

lemma serve_constructing:
  assumes "caption_model w = None" and "constructing r"
  shows "caption_model (serve w r) \<noteq> None \<and>
         printed caption_loaded_line (serve w r) = printed caption_loaded_line w + 1 \<and>
         printed caption_loading_line (serve w r) = printed caption_loading_line w + 1"
proof (cases r)
  case (CaptionRequest e v n)
  with assms caption_image_constructs [of w e v n] show ?thesis by simp
next
  case (AnswerRequest e v q n)
  with assms show ?thesis by simp
qed

lemma serve_all_Cons: "serve_all w (r # rs) = serve_all (serve w r) rs"
  by (simp add: serve_all_def)

lemma serve_all_not_constructing:
  "caption_model w = None \<Longrightarrow> \<forall>r\<in>set rs. \<not> constructing r \<Longrightarrow>
   caption_model (serve_all w rs) = None \<and>
   printed caption_loaded_line (serve_all w rs) = printed caption_loaded_line w \<and>
   printed caption_loading_line (serve_all w rs) =
     printed caption_loading_line w + length (filter is_caption_request rs)"
proof (induction rs arbitrary: w)
  case Nil
  then show ?case by (simp add: serve_all_def)
next
  case (Cons r rs)
  from Cons.prems have nc: "\<not> constructing r" and rest: "\<forall>r\<in>set rs. \<not> constructing r"
    by simp_all
  note step = serve_not_constructing [OF Cons.prems(1) nc]
  from step have none: "caption_model (serve w r) = None" by simp
  from Cons.IH [OF none rest] step show ?case
    by (simp add: serve_all_Cons)
qed

lemma serve_all_first_constructing:
  assumes none: "caption_model w = None"
      and pre: "\<forall>r\<in>set pre. \<not> constructing r"
      and r: "constructing r"
  shows "caption_model (serve_all w pre) = None \<and>
         caption_model (serve_all w (pre @ [r])) \<noteq> None \<and>
         caption_model (serve_all w (pre @ r # post)) = caption_model (serve_all w (pre @ [r])) \<and>
         printed caption_loaded_line (serve_all w (pre @ r # post)) =
           printed caption_loaded_line w + 1 \<and>
         printed caption_loading_line (serve_all w (pre @ r # post)) =
           printed caption_loading_line w + length (filter is_caption_request pre) + 1"
proof -
  note before = serve_all_not_constructing [OF none pre]
  from before have n: "caption_model (serve_all w pre) = None" by simp
  note at = serve_constructing [OF n r]
  have one: "serve_all w (pre @ [r]) = serve (serve_all w pre) r"
    by (simp add: serve_all_def)
  have all: "serve_all w (pre @ r # post) = serve_all (serve (serve_all w pre) r) post"
    by (simp add: serve_all_def)
  from at obtain h where h: "caption_model (serve (serve_all w pre) r) = Some h"
    by auto
  note after = serve_all_loaded [OF h, of post]
  from before at after h one all show ?thesis by simp
qed

text \<open>
  Claim C3, as the code has it. Over any run of \<^verbatim>\<open>caption_image\<close> and
  \<^verbatim>\<open>answer_question\<close> calls, from any state:
  \<^item> the captioning handle is constructed with success at most once (the line that
    \<^verbatim>\<open>load_caption_model\<close> prints after a construction is printed at most once more);
  \<^item> once the handle exists it is the same object after every later call, and neither that
    line nor the loading line is printed again;
  \<^item> a \<^verbatim>\<open>caption_image\<close> call without a handle whose construction does not raise prints
    the loading line and stores the new handle;
  \<^item> a \<^verbatim>\<open>caption_image\<close> call without a handle whose construction raises prints the
    loading line, raises and stores no handle;
  \<^item> so while no call constructs, there is no handle and every \<^verbatim>\<open>caption_image\<close> call of
    the run has printed the loading line again;
  \<^item> and the handle is constructed during the first constructing call of the run: there is
    none before it, there is one after it, and it is the one that every later state has.
\<close>

theorem caption_handle_constructed_at_most_once:
  "printed caption_loaded_line (serve_all w rs) \<le> printed caption_loaded_line w + 1 \<and>
   (caption_model w = Some h \<longrightarrow>
      caption_model (serve_all w rs) = Some h \<and>
      printed caption_loaded_line (serve_all w rs) = printed caption_loaded_line w \<and>
      printed caption_loading_line (serve_all w rs) = printed caption_loading_line w) \<and>
   (caption_model w = None \<longrightarrow> construction_succeeds e \<longrightarrow>
      caption_model (snd (caption_image e w v n)) =
        Some \<lparr>mh_id = Suc (next_obj w), mh_checkpoint = caption_checkpoint,
              mh_device = get_device e\<rparr> \<and>
      printed caption_loading_line (snd (caption_image e w v n)) =
        printed caption_loading_line w + 1 \<and>
      printed caption_loaded_line (snd (caption_image e w v n)) =
        printed caption_loaded_line w + 1) \<and>
   (caption_model w = None \<longrightarrow> \<not> construction_succeeds e \<longrightarrow>
      isl (fst (caption_image e w v n)) \<and>
      caption_model (snd (caption_image e w v n)) = None \<and>
      printed caption_loading_line (snd (caption_image e w v n)) =
        printed caption_loading_line w + 1 \<and>
      printed caption_loaded_line (snd (caption_image e w v n)) =
        printed caption_loaded_line w) \<and>
   (caption_model w = None \<longrightarrow> (\<forall>r\<in>set rs. \<not> constructing r) \<longrightarrow>
      caption_model (serve_all w rs) = None \<and>
      printed caption_loaded_line (serve_all w rs) = printed caption_loaded_line w \<and>
      printed caption_loading_line (serve_all w rs) =
        printed caption_loading_line w + length (filter is_caption_request rs)) \<and>
   (caption_model w = None \<longrightarrow> (\<forall>r\<in>set pre. \<not> constructing r) \<longrightarrow> constructing r \<longrightarrow>
      caption_model (serve_all w pre) = None \<and>
      caption_model (serve_all w (pre @ [r])) \<noteq> None \<and>
      caption_model (serve_all w (pre @ r # post)) = caption_model (serve_all w (pre @ [r])) \<and>
      printed caption_loaded_line (serve_all w (pre @ r # post)) =
        printed caption_loaded_line w + 1 \<and>
      printed caption_loading_line (serve_all w (pre @ r # post)) =
        printed caption_loading_line w + length (filter is_caption_request pre) + 1)"
proof -
  note once = serve_all_at_most_once [of w rs]
  have kept: "caption_model w = Some h \<longrightarrow>
      caption_model (serve_all w rs) = Some h \<and>
      printed caption_loaded_line (serve_all w rs) = printed caption_loaded_line w \<and>
      printed caption_loading_line (serve_all w rs) = printed caption_loading_line w"
    using serve_all_loaded [of w h rs] by blast
  have built: "caption_model w = None \<longrightarrow> construction_succeeds e \<longrightarrow>
      caption_model (snd (caption_image e w v n)) =
        Some \<lparr>mh_id = Suc (next_obj w), mh_checkpoint = caption_checkpoint,
              mh_device = get_device e\<rparr> \<and>
      printed caption_loading_line (snd (caption_image e w v n)) =
        printed caption_loading_line w + 1 \<and>
      printed caption_loaded_line (snd (caption_image e w v n)) =
        printed caption_loaded_line w + 1"
    using caption_image_constructs [of w e v n] by blast
  have failed: "caption_model w = None \<longrightarrow> \<not> construction_succeeds e \<longrightarrow>
      isl (fst (caption_image e w v n)) \<and>
      caption_model (snd (caption_image e w v n)) = None \<and>
      printed caption_loading_line (snd (caption_image e w v n)) =
        printed caption_loading_line w + 1 \<and>
      printed caption_loaded_line (snd (caption_image e w v n)) =
        printed caption_loaded_line w"
    using caption_image_fails [of w e v n] by blast
  have retried: "caption_model w = None \<longrightarrow> (\<forall>r\<in>set rs. \<not> constructing r) \<longrightarrow>
      caption_model (serve_all w rs) = None \<and>
      printed caption_loaded_line (serve_all w rs) = printed caption_loaded_line w \<and>
      printed caption_loading_line (serve_all w rs) =
        printed caption_loading_line w + length (filter is_caption_request rs)"
    using serve_all_not_constructing [of w rs] by blast
  have first: "caption_model w = None \<longrightarrow> (\<forall>r\<in>set pre. \<not> constructing r) \<longrightarrow> constructing r \<longrightarrow>
      caption_model (serve_all w pre) = None \<and>
      caption_model (serve_all w (pre @ [r])) \<noteq> None \<and>
      caption_model (serve_all w (pre @ r # post)) = caption_model (serve_all w (pre @ [r])) \<and>
      printed caption_loaded_line (serve_all w (pre @ r # post)) =
        printed caption_loaded_line w + 1 \<and>
      printed caption_loading_line (serve_all w (pre @ r # post)) =
        printed caption_loading_line w + length (filter is_caption_request pre) + 1"
    using serve_all_first_constructing [of w pre r post] by blast
  from once kept built failed retried first show ?thesis by blast
qed

theorem caption_handle_constructed_at_most_once_witness:
  "caption_model initial_world = None \<and>
   \<not> constructing (CaptionRequest load_fails_env (PyStr (lit ''data/cat.jpg'')) 50) \<and>
   constructing (CaptionRequest quiet_env (PyStr (lit ''data/cat.jpg'')) 50) \<and>
   caption_model
     (serve_all initial_world
        [CaptionRequest load_fails_env (PyStr (lit ''data/cat.jpg'')) 50,
         AnswerRequest quiet_env (PyStr (lit ''data/cat.jpg'')) (lit ''why'') 50]) = None \<and>
   caption_model
     (serve_all initial_world
        ([CaptionRequest load_fails_env (PyStr (lit ''data/cat.jpg'')) 50,
          AnswerRequest quiet_env (PyStr (lit ''data/cat.jpg'')) (lit ''why'') 50] @
         CaptionRequest quiet_env (PyStr (lit ''data/cat.jpg'')) 50 #
         [CaptionRequest load_fails_env (PyObject (lit ''int'')) 50,
          CaptionRequest quiet_env (NdArray \<lparr>nd_shape = [480, 640, 3]\<rparr>) 20])) =
   caption_model
     (serve_all initial_world
        ([CaptionRequest load_fails_env (PyStr (lit ''data/cat.jpg'')) 50,
          AnswerRequest quiet_env (PyStr (lit ''data/cat.jpg'')) (lit ''why'') 50] @
         [CaptionRequest quiet_env (PyStr (lit ''data/cat.jpg'')) 50])) \<and>
   printed caption_loaded_line
     (serve_all initial_world
        ([CaptionRequest load_fails_env (PyStr (lit ''data/cat.jpg'')) 50,
          AnswerRequest quiet_env (PyStr (lit ''data/cat.jpg'')) (lit ''why'') 50] @
         CaptionRequest quiet_env (PyStr (lit ''data/cat.jpg'')) 50 #
         [CaptionRequest load_fails_env (PyObject (lit ''int'')) 50,
          CaptionRequest quiet_env (NdArray \<lparr>nd_shape = [480, 640, 3]\<rparr>) 20])) = 1 \<and>
   printed caption_loading_line
     (serve_all initial_world
        ([CaptionRequest load_fails_env (PyStr (lit ''data/cat.jpg'')) 50,
          AnswerRequest quiet_env (PyStr (lit ''data/cat.jpg'')) (lit ''why'') 50] @
         CaptionRequest quiet_env (PyStr (lit ''data/cat.jpg'')) 50 #
         [CaptionRequest load_fails_env (PyObject (lit ''int'')) 50,
          CaptionRequest quiet_env (NdArray \<lparr>nd_shape = [480, 640, 3]\<rparr>) 20])) = 2"
proof -
  let ?pre = "[CaptionRequest load_fails_env (PyStr (lit ''data/cat.jpg'')) 50,
               AnswerRequest quiet_env (PyStr (lit ''data/cat.jpg'')) (lit ''why'') 50]"
  let ?r = "CaptionRequest quiet_env (PyStr (lit ''data/cat.jpg'')) 50"
  let ?post = "[CaptionRequest load_fails_env (PyObject (lit ''int'')) 50,
                CaptionRequest quiet_env (NdArray \<lparr>nd_shape = [480, 640, 3]\<rparr>) 20]"
  have none: "caption_model initial_world = None"
    by (simp add: initial_world_def)
  have zero: "printed caption_loaded_line initial_world = 0"
    "printed caption_loading_line initial_world = 0"
    by (simp_all add: printed_def initial_world_def)
  have bad: "\<not> construction_succeeds load_fails_env"
    by (simp add: construction_succeeds_def load_fails_env_def quiet_env_def)
  have good: "construction_succeeds quiet_env"
    by (simp add: construction_succeeds_def quiet_env_def)
  from bad have pre: "\<forall>r\<in>set ?pre. \<not> constructing r" by simp
  from good have r: "constructing ?r" by simp
  from caption_handle_constructed_at_most_once
         [of initial_world _ _ _ _ _ ?pre ?r ?post]
       none pre r
  have run: "caption_model (serve_all initial_world ?pre) = None \<and>
      caption_model (serve_all initial_world (?pre @ ?r # ?post)) =
        caption_model (serve_all initial_world (?pre @ [?r])) \<and>
      printed caption_loaded_line (serve_all initial_world (?pre @ ?r # ?post)) =
        printed caption_loaded_line initial_world + 1 \<and>
      printed caption_loading_line (serve_all initial_world (?pre @ ?r # ?post)) =
        printed caption_loading_line initial_world + length (filter is_caption_request ?pre) + 1"
    by blast
  from run zero none bad good show ?thesis by simp
qed

text \<open>
  When the download of the weights fails in the first call, the handle is constructed
  during the second call and the loading line has been printed twice.
\<close>

theorem caption_loading_line_twice_counterexample:
  "caption_model
     (serve_all initial_world
        [CaptionRequest load_fails_env (PilImage \<lparr>img_mode = ModeL, img_width = 2, img_height = 2\<rparr>) 50])
     = None \<and>
   caption_model
     (serve_all initial_world
        [CaptionRequest load_fails_env (PilImage \<lparr>img_mode = ModeL, img_width = 2, img_height = 2\<rparr>) 50,
         CaptionRequest quiet_env (PilImage \<lparr>img_mode = ModeL, img_width = 2, img_height = 2\<rparr>) 50])
     = Some \<lparr>mh_id = 2, mh_checkpoint = caption_checkpoint, mh_device = lit ''cpu''\<rparr> \<and>
   printed caption_loading_line
     (serve_all initial_world
        [CaptionRequest load_fails_env (PilImage \<lparr>img_mode = ModeL, img_width = 2, img_height = 2\<rparr>) 50,
         CaptionRequest quiet_env (PilImage \<lparr>img_mode = ModeL, img_width = 2, img_height = 2\<rparr>) 50])
     = 2"
  by (simp add: serve_all_def caption_image_def load_caption_model_def generate_text_def
        load_fails_env_def quiet_env_def initial_world_def get_device_def emit_def Let_def
        printed_def caption_lines_distinct convert_def)

end
